theory Spec2Isabelle
  imports Main
begin

section \<open>The REST views of invenio-archivematica\<close>

text \<open>
  A shallow embedding of \<^verbatim>\<open>invenio_archivematica/views/rest.py\<close>: the decorators
  \<^verbatim>\<open>pass_accession_id\<close> and \<^verbatim>\<open>check_permission\<close>, the validator
  \<^verbatim>\<open>validate_status\<close>, and the handlers \<^verbatim>\<open>Archive.patch\<close>,
  \<^verbatim>\<open>Archive.get\<close> and \<^verbatim>\<open>ArchiveDownload.get\<close>.

  The handlers mutate the ORM object \<^verbatim>\<open>archive\<close>, call the Archival Service through
  \<^verbatim>\<open>requests.get\<close>, commit the database session and call the entries of
  \<^verbatim>\<open>change_status_func\<close>. The model threads a world through each handler: the
  archive object and a chronological trace of these effects. A Python exception is a
  value \<open>Inl e\<close>; the world is returned beside it, since what the handler did before
  raising stays done.
\<close>

subsection \<open>Data\<close>

text \<open>
  Modelled from the spec: the enumeration \<^verbatim>\<open>ArchiveStatus\<close> of
  \<^verbatim>\<open>invenio_archivematica.models\<close> is imported by the views and is not among the
  sources. The views name these six members, and the spec lists the same six.
\<close>

datatype ArchiveStatus =
  NEW | WAITING | PROCESSING_TRANSFER | PROCESSING_AIP | REGISTERED | FAILED

text \<open>
  The columns of the model class \<^verbatim>\<open>Archive\<close> that the views read and write. The
  relationship \<^verbatim>\<open>archive.sip\<close> is represented by the identifier \<open>sip_id\<close> of the
  package it points to.
\<close>

record archive =
  sip_id :: string
  status :: ArchiveStatus
  accession_id :: string
  archivematica_id :: string

text \<open>The query parameters sent with every request to the Archival Service.\<close>

record params =
  username :: string
  api_key :: string

text \<open>
  What the views read of a \<^verbatim>\<open>requests.Response\<close>. \<open>json\<close> is \<open>None\<close> when the body
  is not JSON (\<^verbatim>\<open>response.json()\<close> raises), and otherwise the object's string members.
\<close>

record response =
  ok :: bool
  status_code :: nat
  json :: "(string \<rightharpoonup> string) option"
  headers :: "(string \<times> string) list"
  content :: string

text \<open>The keys of \<^verbatim>\<open>current_app.config\<close> that the views read.\<close>

record config =
  ARCHIVEMATICA_DASHBOARD_URL :: string
  ARCHIVEMATICA_DASHBOARD_USER :: string
  ARCHIVEMATICA_DASHBOARD_API_KEY :: string
  ARCHIVEMATICA_STORAGE_URL :: string
  ARCHIVEMATICA_STORAGE_USER :: string
  ARCHIVEMATICA_STORAGE_API_KEY :: string

text \<open>
  Exceptions. \<open>Abort c\<close> is \<^verbatim>\<open>flask.abort(c)\<close> (and the \<^verbatim>\<open>http_exception\<close> of a
  failed permission); \<open>ValidationError\<close> is what the argument parser raises when a
  validator returns \<^verbatim>\<open>False\<close>; \<open>InvalidStatus\<close> is the converter rejecting a string.
\<close>

datatype error =
  Abort nat
  | ValidationError
  | InvalidStatus
  | KeyError string
  | ValueError
  | UnboundLocalError string
  | ConnectionError
  | RequestException

text \<open>
  What a view returns. \<open>JsonArchive\<close> is the object built by \<^verbatim>\<open>_to_json\<close> (its
  \<^verbatim>\<open>status\<close> member is the enumeration member's value, kept here as the member);
  \<open>JsonEmpty\<close> is \<^verbatim>\<open>jsonify({})\<close>; \<open>Stream\<close> is the relayed byte stream.
\<close>

datatype body =
  JsonArchive string ArchiveStatus string string
  | JsonEmpty
  | Text string
  | Stream string

record reply =
  code :: nat
  payload :: body
  reply_headers :: "(string \<times> string) list"

text \<open>The effects a handler has on its collaborators, in the order they happen.\<close>

datatype event =
  HttpGet string params
  | Commit archive
  | Dispatch ArchiveStatus string string string

record world =
  ark :: archive
  trace :: "event list"

type_synonym outcome = "(error + reply) \<times> world"

type_synonym converter = "string \<Rightarrow> bool \<Rightarrow> ArchiveStatus option"

text \<open>
  \<^verbatim>\<open>requests.get(url, params=params)\<close> returns a response or raises: a
  \<^verbatim>\<open>ConnectionError\<close>, or another of the library's exceptions (a read timeout, too many
  redirects), which no handler catches.
\<close>

datatype transport_failure = ConnectionFailure | OtherFailure

type_synonym http_client = "string \<Rightarrow> params \<Rightarrow> transport_failure + response"

fun raised :: "transport_failure \<Rightarrow> error" where
  "raised ConnectionFailure = ConnectionError"
| "raised OtherFailure = RequestException"

subsection \<open>Collaborators that are not in the views' file\<close>

text \<open>
  The converter \<^verbatim>\<open>status_converter(status, aip_processing=False)\<close> of
  \<^verbatim>\<open>invenio_archivematica.models\<close> is a parameter of every definition below, of type
  \<open>converter\<close>: \<open>None\<close> is the converter raising on a string it does not recognise, as
  the spec's contract has it. The Archival Service is a parameter too, of type
  \<open>http_client\<close>.
\<close>

text \<open>
  Modelled from the spec: a converter to run the handlers on. The table of
  \<^verbatim>\<open>status_converter\<close> is not among the sources; the spec fixes that a finished transfer
  is reported as complete and converts to \<open>REGISTERED\<close>, that one string means a
  different status in each stage, and that an unrecognised string is rejected. This
  instance has these entries and the names of the statuses. No theorem about the
  handlers depends on it: it only supplies concrete inputs.
\<close>

definition status_converter :: converter where
  "status_converter s aip_processing =
     (if s = ''COMPLETE'' then Some REGISTERED
      else if s = ''PROCESSING'' then
        Some (if aip_processing then PROCESSING_AIP else PROCESSING_TRANSFER)
      else if s = ''NEW'' then Some NEW
      else if s = ''WAITING'' then Some WAITING
      else if s = ''PROCESSING_TRANSFER'' then Some PROCESSING_TRANSFER
      else if s = ''PROCESSING_AIP'' then Some PROCESSING_AIP
      else if s = ''REGISTERED'' then Some REGISTERED
      else if s = ''FAILED'' then Some FAILED
      else None)"

text \<open>
  Modelled from the spec: the dispatch table \<^verbatim>\<open>change_status_func\<close> of
  \<^verbatim>\<open>invenio_archivematica.api\<close> is not among the sources. By the spec it maps every
  status to an action which, called with \<^verbatim>\<open>(sip, accession_id, archivematica_id)\<close>,
  persists the new status on the matching Archive Record and performs the side effect
  of that status. The record is the object the handler holds, so its \<open>status\<close> is
  the new one afterwards; the invocation is logged with its arguments.
\<close>

definition change_status_func ::
  "ArchiveStatus \<Rightarrow> string \<Rightarrow> string \<Rightarrow> string \<Rightarrow> world \<Rightarrow> world" where
  "change_status_func st sip accession aid w =
     w\<lparr>ark := (ark w)\<lparr>status := st\<rparr>,
       trace := trace w @ [Dispatch st sip accession aid]\<rparr>"

text \<open>The calls of the dispatcher and of the Archival Service recorded in a trace.\<close>

fun dispatched :: "event list \<Rightarrow> (ArchiveStatus \<times> string) list" where
  "dispatched [] = []"
| "dispatched (Dispatch st sip accession aid # es) = (st, aid) # dispatched es"
| "dispatched (e # es) = dispatched es"

fun outbound :: "event list \<Rightarrow> string list" where
  "outbound [] = []"
| "outbound (HttpGet url p # es) = url # outbound es"
| "outbound (e # es) = outbound es"

subsection \<open>Helpers of the handlers\<close>

text \<open>\<^verbatim>\<open>validate_status\<close>: the converter is tried and any exception means invalid.\<close>

definition validate_status :: "converter \<Rightarrow> string \<Rightarrow> bool" where
  "validate_status conv s = (case conv s False of None \<Rightarrow> False | Some st \<Rightarrow> True)"

text \<open>\<^verbatim>\<open>Archive._to_json\<close>, answered with status 200.\<close>

definition to_json :: "archive \<Rightarrow> reply" where
  "to_json a =
     \<lparr>code = 200,
      payload = JsonArchive (sip_id a) (status a) (accession_id a) (archivematica_id a),
      reply_headers = []\<rparr>"

text \<open>\<^verbatim>\<open>make_response(text, code)\<close> and \<^verbatim>\<open>jsonify({}), code\<close>.\<close>

definition make_response :: "string \<Rightarrow> nat \<Rightarrow> reply" where
  "make_response t c = \<lparr>code = c, payload = Text t, reply_headers = []\<rparr>"

definition empty_json :: "nat \<Rightarrow> reply" where
  "empty_json c = \<lparr>code = c, payload = JsonEmpty, reply_headers = []\<rparr>"

text \<open>\<^verbatim>\<open>response.json()[key]\<close>.\<close>

definition json_member :: "response \<Rightarrow> string \<Rightarrow> error + string" where
  "json_member r k =
     (case json r of
        None \<Rightarrow> Inl ValueError
      | Some obj \<Rightarrow> (case obj k of None \<Rightarrow> Inl (KeyError k) | Some v \<Rightarrow> Inr v))"

definition dashboard_params :: "config \<Rightarrow> params" where
  "dashboard_params cfg =
     \<lparr>username = ARCHIVEMATICA_DASHBOARD_USER cfg,
      api_key = ARCHIVEMATICA_DASHBOARD_API_KEY cfg\<rparr>"

definition storage_params :: "config \<Rightarrow> params" where
  "storage_params cfg =
     \<lparr>username = ARCHIVEMATICA_STORAGE_USER cfg,
      api_key = ARCHIVEMATICA_STORAGE_API_KEY cfg\<rparr>"

definition transfer_url :: "config \<Rightarrow> string \<Rightarrow> string" where
  "transfer_url cfg uuid = ARCHIVEMATICA_DASHBOARD_URL cfg @ ''/api/transfer/status/'' @ uuid @ ''/''"

definition ingest_url :: "config \<Rightarrow> string \<Rightarrow> string" where
  "ingest_url cfg uuid = ARCHIVEMATICA_DASHBOARD_URL cfg @ ''/api/ingest/status/'' @ uuid @ ''/''"

definition download_url :: "config \<Rightarrow> string \<Rightarrow> string" where
  "download_url cfg uuid = ARCHIVEMATICA_STORAGE_URL cfg @ ''/api/v2/file/'' @ uuid @ ''/download/''"

definition sent :: "string \<Rightarrow> params \<Rightarrow> world \<Rightarrow> world" where
  "sent url p w = w\<lparr>trace := trace w @ [HttpGet url p]\<rparr>"

subsection \<open>\<^verbatim>\<open>Archive.patch\<close>\<close>

text \<open>
  The body of \<^verbatim>\<open>patch(self, archive, status='', archivematica_id='')\<close>. A member of
  the enumeration is truthy, so \<^verbatim>\<open>ark_status and ...\<close> is the comparison alone once
  the converter has returned.
\<close>

definition Archive_patch :: "converter \<Rightarrow> string \<Rightarrow> string \<Rightarrow> world \<Rightarrow> outcome" where
  "Archive_patch conv status_arg aid_arg w =
     (let w1 = (if aid_arg \<noteq> [] \<and> aid_arg \<noteq> archivematica_id (ark w)
                then w\<lparr>ark := (ark w)\<lparr>archivematica_id := aid_arg\<rparr>\<rparr> else w);
          w2 = w1\<lparr>trace := trace w1 @ [Commit (ark w1)]\<rparr>
      in case conv status_arg False of
           None \<Rightarrow> (Inl InvalidStatus, w2)
         | Some ark_status \<Rightarrow>
             if ark_status \<noteq> status (ark w2) then
               (let w3 = change_status_func ark_status (sip_id (ark w2))
                           (accession_id (ark w2)) (archivematica_id (ark w2)) w2
                in (Inr (to_json (ark w3)), w3))
             else (Inr (to_json (ark w2)), w2))"

subsection \<open>\<^verbatim>\<open>Archive.get\<close>\<close>

text \<open>
  Lines 206 to 218 of the handler: the poll of the ingest status. The local variable
  \<^verbatim>\<open>params\<close> is assigned only in the transfer branch; it is passed here as an option,
  \<open>None\<close> when control arrives without that assignment, and reading it then raises
  \<^verbatim>\<open>UnboundLocalError\<close> before any request is sent.
\<close>

definition poll_aip :: "config \<Rightarrow> converter \<Rightarrow> http_client \<Rightarrow> params option \<Rightarrow> world \<Rightarrow> outcome" where
  "poll_aip cfg conv requests_get params_var w =
     (let url = ingest_url cfg (archivematica_id (ark w)) in
      case params_var of
        None \<Rightarrow> (Inl (UnboundLocalError ''params''), w)
      | Some p \<Rightarrow>
          (let w1 = sent url p w in
           case requests_get url p of
             Inl e \<Rightarrow> (Inl (raised e), w1)
           | Inr r \<Rightarrow>
               if \<not> ok r then (Inr (empty_json (status_code r)), w1)
               else (case json_member r ''status'' of
                  Inl e \<Rightarrow> (Inl e, w1)
                | Inr s \<Rightarrow>
                    (case conv s True of
                       None \<Rightarrow> (Inl InvalidStatus, w1)
                     | Some st \<Rightarrow>
                         if st \<noteq> status (ark w1) then
                           (let w2 = change_status_func st (sip_id (ark w1))
                                       (accession_id (ark w1)) (archivematica_id (ark w1)) w1
                            in (Inr (to_json (ark w2)), w2))
                         else (Inr (to_json (ark w1)), w1)))))"

text \<open>The whole handler \<^verbatim>\<open>get(self, archive, real_status=False)\<close>.\<close>

definition Archive_get :: "config \<Rightarrow> converter \<Rightarrow> http_client \<Rightarrow> bool \<Rightarrow> world \<Rightarrow> outcome" where
  "Archive_get cfg conv requests_get real_status w =
     (if \<not> real_status \<or> status (ark w) = FAILED \<or> status (ark w) = NEW
         \<or> archivematica_id (ark w) = []
      then (Inr (to_json (ark w)), w)
      else if status (ark w) = WAITING \<or> status (ark w) = PROCESSING_TRANSFER then
        (let url = transfer_url cfg (archivematica_id (ark w));
             p = dashboard_params cfg;
             w1 = sent url p w
         in case requests_get url p of
              Inl e \<Rightarrow> (Inl (raised e), w1)
            | Inr r \<Rightarrow>
                if \<not> ok r then (Inr (empty_json (status_code r)), w1)
                else (case json_member r ''status'' of
                   Inl e \<Rightarrow> (Inl e, w1)
                 | Inr s \<Rightarrow>
                     (case conv s False of
                        None \<Rightarrow> (Inl InvalidStatus, w1)
                      | Some st \<Rightarrow>
                          if st \<noteq> REGISTERED then
                            (if st \<noteq> status (ark w1) then
                               (let w2 = change_status_func st (sip_id (ark w1))
                                           (accession_id (ark w1)) (archivematica_id (ark w1)) w1
                                in (Inr (to_json (ark w2)), w2))
                             else (Inr (to_json (ark w1)), w1))
                          else (case json_member r ''sip_uuid'' of
                             Inl e \<Rightarrow> (Inl e, w1)
                           | Inr uuid \<Rightarrow>
                               (let w2 = w1\<lparr>ark := (ark w1)\<lparr>archivematica_id := uuid\<rparr>\<rparr>;
                                    w3 = change_status_func PROCESSING_AIP (sip_id (ark w2))
                                           (accession_id (ark w2)) (archivematica_id (ark w2)) w2
                                in poll_aip cfg conv requests_get (Some p) w3)))))
      else poll_aip cfg conv requests_get None w)"

subsection \<open>\<^verbatim>\<open>ArchiveDownload.get\<close>\<close>

text \<open>
  The handler copies the upstream headers one by one into a \<^verbatim>\<open>Headers\<close> object and
  passes it to \<^verbatim>\<open>Response\<close> together with
  \<^verbatim>\<open>content_type='application/octet-stream'\<close>. The constructor then assigns
  \<^verbatim>\<open>headers['Content-Type']\<close>, which is \<^verbatim>\<open>Headers.set\<close>: header names are compared
  without regard to case, the first entry of that name is replaced in place, later ones
  are dropped, and the entry is appended when there is none. So an upstream content
  type is overwritten. Header names are ASCII; \<open>lower\<close> folds the ASCII letters.
\<close>

definition lower_char :: "char \<Rightarrow> char" where
  "lower_char c =
     (case map_of (zip ''ABCDEFGHIJKLMNOPQRSTUVWXYZ'' ''abcdefghijklmnopqrstuvwxyz'') c of
        None \<Rightarrow> c
      | Some d \<Rightarrow> d)"

definition lower :: "string \<Rightarrow> string" where
  "lower s = map lower_char s"

definition headers_set ::
  "string \<Rightarrow> string \<Rightarrow> (string \<times> string) list \<Rightarrow> (string \<times> string) list" where
  "headers_set key val hs =
     (case dropWhile (\<lambda>h. lower (fst h) \<noteq> lower key) hs of
        [] \<Rightarrow> hs @ [(key, val)]
      | h # later \<Rightarrow>
          takeWhile (\<lambda>h. lower (fst h) \<noteq> lower key) hs
            @ (key, val) # filter (\<lambda>h. lower (fst h) \<noteq> lower key) later)"

text \<open>Only \<^verbatim>\<open>ConnectionError\<close> is caught.\<close>

definition ArchiveDownload_get :: "config \<Rightarrow> http_client \<Rightarrow> world \<Rightarrow> outcome" where
  "ArchiveDownload_get cfg requests_get w =
     (if \<not> (status (ark w) = REGISTERED) \<or> archivematica_id (ark w) = []
      then (Inr (make_response ''Archive has not been registered yet.'' 412), w)
      else
        (let url = download_url cfg (archivematica_id (ark w));
             p = storage_params cfg;
             w1 = sent url p w
         in case requests_get url p of
              Inl ConnectionFailure \<Rightarrow>
                (Inr (make_response ''Connection problem with Archivematica'' 520), w1)
            | Inl OtherFailure \<Rightarrow> (Inl (raised OtherFailure), w1)
            | Inr r \<Rightarrow>
                if ok r then
                  (Inr \<lparr>code = 200, payload = Stream (content r),
                        reply_headers =
                          headers_set ''Content-Type'' ''application/octet-stream'' (headers r)\<rparr>,
                   w1)
                else (Inr (make_response [] (status_code r)), w1)))"

subsection \<open>The decorators and the routes\<close>

text \<open>
  The store of archives, looked up by \<^verbatim>\<open>Archive_.get_from_accession_id\<close>, and the
  trace so far.
\<close>

record state =
  records :: "string \<rightharpoonup> archive"
  events :: "event list"

text \<open>
  \<^verbatim>\<open>pass_accession_id\<close>: an unknown accession aborts with 404. The handler works on
  the object found, and what it leaves in it is what the store holds afterwards.
\<close>

definition pass_accession_id ::
  "(world \<Rightarrow> outcome) \<Rightarrow> string \<Rightarrow> state \<Rightarrow> (error + reply) \<times> state" where
  "pass_accession_id f accession s =
     (case records s accession of
        None \<Rightarrow> (Inl (Abort 404), s)
      | Some a \<Rightarrow>
          (case f \<lparr>ark = a, trace = events s\<rparr> of
             (res, w) \<Rightarrow> (res, \<lparr>records = (records s)(accession \<mapsto> ark w), events = trace w\<rparr>)))"

text \<open>
  \<^verbatim>\<open>check_permission(permission)\<close>: the permission built from the action's name and
  the archive's accession identifier is required, with 403 as its exception. Whether a
  caller holds it is decided outside the views: the parameter \<open>allowed\<close>.
\<close>

definition check_permission ::
  "(string \<Rightarrow> string \<Rightarrow> bool) \<Rightarrow> string \<Rightarrow> (world \<Rightarrow> outcome) \<Rightarrow> world \<Rightarrow> outcome" where
  "check_permission allowed permission f w =
     (if allowed permission (accession_id (ark w)) then f w else (Inl (Abort 403), w))"

text \<open>
  \<^verbatim>\<open>use_kwargs\<close> of the PATCH: both members of the JSON body are optional; a status
  that is present is validated, and a missing member leaves the handler's default, the
  empty string.
\<close>

record patch_body =
  status_member :: "string option"
  archivematica_id_member :: "string option"

definition use_kwargs_patch ::
  "converter \<Rightarrow> patch_body \<Rightarrow> (string \<Rightarrow> string \<Rightarrow> world \<Rightarrow> outcome) \<Rightarrow> world \<Rightarrow> outcome" where
  "use_kwargs_patch conv b f w =
     (let aid_arg = (case archivematica_id_member b of None \<Rightarrow> [] | Some x \<Rightarrow> x) in
      case status_member b of
        None \<Rightarrow> f [] aid_arg w
      | Some s \<Rightarrow> if validate_status conv s then f s aid_arg w else (Inl ValidationError, w))"

text \<open>\<^verbatim>\<open>use_kwargs\<close> of the GET: \<^verbatim>\<open>realStatus\<close> is optional and defaults to false.\<close>

definition use_kwargs_get :: "bool option \<Rightarrow> (bool \<Rightarrow> world \<Rightarrow> outcome) \<Rightarrow> world \<Rightarrow> outcome" where
  "use_kwargs_get realStatus f w = (case realStatus of None \<Rightarrow> f False w | Some b \<Rightarrow> f b w)"

text \<open>
  The three routes, for a caller that \<^verbatim>\<open>require_api_auth\<close> and
  \<^verbatim>\<open>require_oauth_scopes\<close> have let through. The download route has no
  \<^verbatim>\<open>check_permission\<close>: the decorator is commented out in the source.
\<close>

definition patch_route ::
  "(string \<Rightarrow> string \<Rightarrow> bool) \<Rightarrow> converter \<Rightarrow> string \<Rightarrow> patch_body \<Rightarrow> state
     \<Rightarrow> (error + reply) \<times> state" where
  "patch_route allowed conv accession b =
     pass_accession_id
       (check_permission allowed ''archive-write'' (use_kwargs_patch conv b (Archive_patch conv)))
       accession"

definition get_route ::
  "(string \<Rightarrow> string \<Rightarrow> bool) \<Rightarrow> config \<Rightarrow> converter \<Rightarrow> http_client \<Rightarrow> string \<Rightarrow> bool option
     \<Rightarrow> state \<Rightarrow> (error + reply) \<times> state" where
  "get_route allowed cfg conv requests_get accession realStatus =
     pass_accession_id
       (check_permission allowed ''archive-read''
          (use_kwargs_get realStatus (Archive_get cfg conv requests_get)))
       accession"

definition download_route ::
  "config \<Rightarrow> http_client \<Rightarrow> string \<Rightarrow> state \<Rightarrow> (error + reply) \<times> state" where
  "download_route cfg requests_get accession =
     pass_accession_id (ArchiveDownload_get cfg requests_get) accession"

subsection \<open>Concrete inputs\<close>

text \<open>
  Inputs on which the handlers are run below: an Archival Service that answers from a
  table of URLs and is unreachable elsewhere, two kinds of response, a configuration,
  a world holding one archive and an empty trace, and the two constant permission
  policies.
\<close>

definition answers :: "(string \<times> response) list \<Rightarrow> http_client" where
  "answers tbl url p =
     (case map_of tbl url of None \<Rightarrow> Inl ConnectionFailure | Some r \<Rightarrow> Inr r)"

definition json_response :: "(string \<times> string) list \<Rightarrow> response" where
  "json_response members =
     \<lparr>ok = True, status_code = 200, json = Some (map_of members), headers = [], content = []\<rparr>"

definition error_response :: "nat \<Rightarrow> response" where
  "error_response c = \<lparr>ok = False, status_code = c, json = None, headers = [], content = []\<rparr>"

definition example_config :: config where
  "example_config =
     \<lparr>ARCHIVEMATICA_DASHBOARD_URL = ''http://am'',
      ARCHIVEMATICA_DASHBOARD_USER = ''invenio'',
      ARCHIVEMATICA_DASHBOARD_API_KEY = ''k1'',
      ARCHIVEMATICA_STORAGE_URL = ''http://ss'',
      ARCHIVEMATICA_STORAGE_USER = ''invenio'',
      ARCHIVEMATICA_STORAGE_API_KEY = ''k2''\<rparr>"

definition example_archive :: "ArchiveStatus \<Rightarrow> string \<Rightarrow> archive" where
  "example_archive st aid =
     \<lparr>sip_id = ''sip1'', status = st, accession_id = ''acc1'', archivematica_id = aid\<rparr>"

definition example_world :: "ArchiveStatus \<Rightarrow> string \<Rightarrow> world" where
  "example_world st aid = \<lparr>ark = example_archive st aid, trace = []\<rparr>"

definition grant_all :: "string \<Rightarrow> string \<Rightarrow> bool" where
  "grant_all action accession = True"

definition deny_all :: "string \<Rightarrow> string \<Rightarrow> bool" where
  "deny_all action accession = False"

definition example_state :: "ArchiveStatus \<Rightarrow> string \<Rightarrow> state" where
  "example_state st aid = \<lparr>records = [''acc1'' \<mapsto> example_archive st aid], events = []\<rparr>"

section \<open>Properties\<close>

lemmas helper_defs =
  transfer_url_def ingest_url_def download_url_def dashboard_params_def storage_params_def
  sent_def json_member_def change_status_func_def to_json_def empty_json_def make_response_def

lemmas example_defs =
  answers_def json_response_def error_response_def example_config_def example_archive_def
  example_world_def example_state_def status_converter_def

text \<open>The recorded calls of a trace that was extended.\<close>

lemma dispatched_append: "dispatched (xs @ ys) = dispatched xs @ dispatched ys"
  by (induction xs rule: dispatched.induct) simp_all

lemma outbound_append: "outbound (xs @ ys) = outbound xs @ outbound ys"
  by (induction xs rule: outbound.induct) simp_all

text \<open>The poll of the ingest status, once the response is known.\<close>

lemma poll_aip_ok:
  assumes "requests_get (ingest_url cfg (archivematica_id (ark w))) p = Inr r"
    and "ok r" and "json_member r ''status'' = Inr s" and "conv s True = Some st"
  shows "poll_aip cfg conv requests_get (Some p) w =
     (if st \<noteq> status (ark w) then
        (Inr (to_json ((ark w)\<lparr>status := st\<rparr>)),
         w\<lparr>ark := (ark w)\<lparr>status := st\<rparr>,
           trace := trace w @ [HttpGet (ingest_url cfg (archivematica_id (ark w))) p,
              Dispatch st (sip_id (ark w)) (accession_id (ark w)) (archivematica_id (ark w))]\<rparr>)
      else (Inr (to_json (ark w)), sent (ingest_url cfg (archivematica_id (ark w))) p w))"
  using assms by (simp add: poll_aip_def Let_def sent_def change_status_func_def)

lemma poll_aip_failed:
  assumes "requests_get (ingest_url cfg (archivematica_id (ark w))) p = Inr r" and "\<not> ok r"
  shows "poll_aip cfg conv requests_get (Some p) w =
     (Inr (empty_json (status_code r)), sent (ingest_url cfg (archivematica_id (ark w))) p w)"
  using assms by (simp add: poll_aip_def Let_def)

text \<open>
  The transfer branch when the transfer is reported complete: the identifier is
  replaced, the dispatcher is invoked for \<open>PROCESSING_AIP\<close>, and the handler goes on to
  the poll of the ingest status with the credentials of the transfer poll.
\<close>

lemma get_pivot:
  assumes "status (ark w) = WAITING \<or> status (ark w) = PROCESSING_TRANSFER"
    and "archivematica_id (ark w) \<noteq> []"
    and "requests_get (transfer_url cfg (archivematica_id (ark w))) (dashboard_params cfg) = Inr r"
    and "ok r" and "json_member r ''status'' = Inr s" and "conv s False = Some REGISTERED"
    and "json_member r ''sip_uuid'' = Inr uuid"
  shows "Archive_get cfg conv requests_get True w =
     poll_aip cfg conv requests_get (Some (dashboard_params cfg))
       (w\<lparr>ark := (ark w)\<lparr>archivematica_id := uuid, status := PROCESSING_AIP\<rparr>,
          trace := trace w @
            [HttpGet (transfer_url cfg (archivematica_id (ark w))) (dashboard_params cfg),
             Dispatch PROCESSING_AIP (sip_id (ark w)) (accession_id (ark w)) uuid]\<rparr>)"
  using assms by (auto simp add: Archive_get_def Let_def sent_def change_status_func_def)

text \<open>The handler of the PATCH, once it is known whether the identifier is replaced.\<close>

lemma patch_keeps_id:
  assumes "aid = [] \<or> aid = archivematica_id (ark w)"
  shows "Archive_patch conv st aid w =
     (case conv st False of
        None \<Rightarrow> (Inl InvalidStatus, w\<lparr>trace := trace w @ [Commit (ark w)]\<rparr>)
      | Some s \<Rightarrow>
          if s \<noteq> status (ark w) then
            (Inr (to_json ((ark w)\<lparr>status := s\<rparr>)),
             w\<lparr>ark := (ark w)\<lparr>status := s\<rparr>,
               trace := trace w @ [Commit (ark w),
                 Dispatch s (sip_id (ark w)) (accession_id (ark w)) (archivematica_id (ark w))]\<rparr>)
          else (Inr (to_json (ark w)), w\<lparr>trace := trace w @ [Commit (ark w)]\<rparr>))"
proof (cases "aid = []")
  case True
  then show ?thesis
    by (simp add: Archive_patch_def Let_def change_status_func_def split: option.split)
next
  case False
  with assms have "archivematica_id (ark w) = aid" by simp
  then show ?thesis
    by (simp add: Archive_patch_def Let_def change_status_func_def split: option.split)
qed

lemma patch_replaces_id:
  assumes "aid \<noteq> []" and "aid \<noteq> archivematica_id (ark w)"
  shows "Archive_patch conv st aid w =
     (case conv st False of
        None \<Rightarrow> (Inl InvalidStatus,
                 w\<lparr>ark := (ark w)\<lparr>archivematica_id := aid\<rparr>,
                   trace := trace w @ [Commit ((ark w)\<lparr>archivematica_id := aid\<rparr>)]\<rparr>)
      | Some s \<Rightarrow>
          if s \<noteq> status (ark w) then
            (Inr (to_json ((ark w)\<lparr>archivematica_id := aid, status := s\<rparr>)),
             w\<lparr>ark := (ark w)\<lparr>archivematica_id := aid, status := s\<rparr>,
               trace := trace w @ [Commit ((ark w)\<lparr>archivematica_id := aid\<rparr>),
                 Dispatch s (sip_id (ark w)) (accession_id (ark w)) aid]\<rparr>)
          else (Inr (to_json ((ark w)\<lparr>archivematica_id := aid\<rparr>)),
                w\<lparr>ark := (ark w)\<lparr>archivematica_id := aid\<rparr>,
                  trace := trace w @ [Commit ((ark w)\<lparr>archivematica_id := aid\<rparr>)]\<rparr>))"
  using assms
  by (simp add: Archive_patch_def Let_def change_status_func_def split: option.split)

text \<open>What one PATCH leaves for the next.\<close>

lemma patch_id_after:
  assumes "Archive_patch conv st aid w = (res, w')"
  shows "aid = [] \<or> aid = archivematica_id (ark w')"
proof (cases "aid = [] \<or> aid = archivematica_id (ark w)")
  case True
  then have "archivematica_id (ark w') = archivematica_id (ark w)"
    using assms by (auto simp add: patch_keeps_id split: option.splits if_splits)
  with True show ?thesis by simp
next
  case False
  then have "archivematica_id (ark w') = aid"
    using assms by (auto simp add: patch_replaces_id split: option.splits if_splits)
  then show ?thesis by simp
qed

lemma patch_status_after:
  assumes "Archive_patch conv st aid w = (res, w')" and "conv st False = Some s"
  shows "status (ark w') = s \<and> res = Inr (to_json (ark w'))"
proof (cases "aid = [] \<or> aid = archivematica_id (ark w)")
  case True
  then show ?thesis
    using assms by (auto simp add: patch_keeps_id split: if_splits)
next
  case False
  then show ?thesis
    using assms by (auto simp add: patch_replaces_id split: if_splits)
qed

lemma patch_rejected_after:
  assumes "Archive_patch conv st aid w = (res, w')" and "conv st False = None"
  shows "res = Inl InvalidStatus"
  using assms by (simp add: Archive_patch_def Let_def)

text \<open>The download handler raises no HTTP abort of its own.\<close>

lemma download_never_aborts:
  "fst (ArchiveDownload_get cfg requests_get w) \<noteq> Inl (Abort c)"
  by (auto simp add: ArchiveDownload_get_def Let_def split: sum.splits transport_failure.splits)

subsection \<open>The status query\<close>

text \<open>
  C5. A status query that does not ask for the live status, or whose archive is
  \<open>FAILED\<close> or \<open>NEW\<close>, or has no external identifier, answers with the snapshot of the
  cached record and leaves the world as it was: the record is unchanged and the trace
  has gained no event, so no request went to the Archival Service and the dispatcher
  was not invoked.
\<close>

theorem cached_path_C5:
  assumes "\<not> real_status \<or> status (ark w) = FAILED \<or> status (ark w) = NEW
           \<or> archivematica_id (ark w) = []"
  shows "Archive_get cfg conv requests_get real_status w = (Inr (to_json (ark w)), w)"
  using assms by (simp add: Archive_get_def)

text \<open>The spec's scenario: a \<open>NEW\<close> archive without identifier, asked for its live status.\<close>

theorem cached_path_C5_witness:
  "status (ark (example_world NEW [])) = NEW
   \<and> Archive_get example_config status_converter (answers []) True (example_world NEW [])
       = (Inr (to_json (example_archive NEW [])), example_world NEW [])"
  using cached_path_C5 [of True "example_world NEW []" example_config status_converter "answers []"]
  by (simp add: example_world_def example_archive_def)

text \<open>
  C2. The claim is that a live status query on an archive cached as \<open>PROCESSING_AIP\<close>,
  with its identifier set, polls the ingest status and returns the snapshot. The
  handler does not: the transfer branch is skipped, \<^verbatim>\<open>params\<close> was never assigned, and
  reading it for the request raises \<^verbatim>\<open>UnboundLocalError\<close>. No request is sent and
  nothing is returned.
\<close>

theorem aip_poll_params_unbound_C2:
  assumes "status (ark w) = PROCESSING_AIP" and "archivematica_id (ark w) \<noteq> []"
  shows "Archive_get cfg conv requests_get True w = (Inl (UnboundLocalError ''params''), w)"
  using assms by (simp add: Archive_get_def poll_aip_def)

theorem aip_poll_params_unbound_C2_witness:
  "status (ark (example_world PROCESSING_AIP ''A1'')) = PROCESSING_AIP
   \<and> archivematica_id (ark (example_world PROCESSING_AIP ''A1'')) \<noteq> []
   \<and> Archive_get example_config status_converter
         (answers [(''http://am/api/ingest/status/A1/'',
                    json_response [(''status'', ''PROCESSING'')])])
         True (example_world PROCESSING_AIP ''A1'')
       = (Inl (UnboundLocalError ''params''), example_world PROCESSING_AIP ''A1'')"
  using aip_poll_params_unbound_C2 [of "example_world PROCESSING_AIP ''A1''" example_config
      status_converter
      "answers [(''http://am/api/ingest/status/A1/'', json_response [(''status'', ''PROCESSING'')])]"]
  by (simp add: example_world_def example_archive_def)




text \<open>
  C1 as amended. A live status query on a \<open>WAITING\<close> archive whose transfer poll reports
  completion with the package identifier \<open>P\<close>, followed by a successful poll of the
  ingest status that converts to \<open>st\<close>: the record ends with identifier \<open>P\<close> and status
  \<open>st\<close>, and its snapshot is the answer. The dispatcher is invoked for
  \<open>PROCESSING_AIP\<close> first, and a second time, for \<open>st\<close>, exactly when \<open>st\<close> is not
  \<open>PROCESSING_AIP\<close>. Two requests go out, the transfer poll and the ingest poll.
\<close>

theorem pivot_C1:
  assumes "status (ark w) = WAITING"
    and "archivematica_id (ark w) \<noteq> []"
    and "requests_get (transfer_url cfg (archivematica_id (ark w))) (dashboard_params cfg) = Inr r"
    and "ok r" and "json_member r ''status'' = Inr s" and "conv s False = Some REGISTERED"
    and "json_member r ''sip_uuid'' = Inr P"
    and "requests_get (ingest_url cfg P) (dashboard_params cfg) = Inr r'"
    and "ok r'" and "json_member r' ''status'' = Inr s'" and "conv s' True = Some st"
    and "Archive_get cfg conv requests_get True w = (res, w')"
  shows "ark w' = (ark w)\<lparr>archivematica_id := P, status := st\<rparr>
     \<and> res = Inr (to_json (ark w'))
     \<and> dispatched (trace w') = dispatched (trace w) @
          (if st = PROCESSING_AIP then [(PROCESSING_AIP, P)] else [(PROCESSING_AIP, P), (st, P)])
     \<and> outbound (trace w') = outbound (trace w) @
          [transfer_url cfg (archivematica_id (ark w)), ingest_url cfg P]"
proof -
  let ?w3 = "w\<lparr>ark := (ark w)\<lparr>archivematica_id := P, status := PROCESSING_AIP\<rparr>,
        trace := trace w @
          [HttpGet (transfer_url cfg (archivematica_id (ark w))) (dashboard_params cfg),
           Dispatch PROCESSING_AIP (sip_id (ark w)) (accession_id (ark w)) P]\<rparr>"
  have "Archive_get cfg conv requests_get True w
          = poll_aip cfg conv requests_get (Some (dashboard_params cfg)) ?w3"
    using assms(1-7) by (simp add: get_pivot)
  moreover have "requests_get (ingest_url cfg (archivematica_id (ark ?w3))) (dashboard_params cfg) = Inr r'"
    using assms(8) by simp
  ultimately have "(res, w') =
     (if st \<noteq> status (ark ?w3) then
        (Inr (to_json ((ark ?w3)\<lparr>status := st\<rparr>)),
         ?w3\<lparr>ark := (ark ?w3)\<lparr>status := st\<rparr>,
           trace := trace ?w3 @
             [HttpGet (ingest_url cfg (archivematica_id (ark ?w3))) (dashboard_params cfg),
              Dispatch st (sip_id (ark ?w3)) (accession_id (ark ?w3)) (archivematica_id (ark ?w3))]\<rparr>)
      else (Inr (to_json (ark ?w3)),
            sent (ingest_url cfg (archivematica_id (ark ?w3))) (dashboard_params cfg) ?w3))"
    using poll_aip_ok [of requests_get cfg ?w3 "dashboard_params cfg" r' s' conv st] assms(9-12)
    by simp
  then show ?thesis
    by (cases "st = PROCESSING_AIP") (simp_all add: sent_def dispatched_append outbound_append)
qed

text \<open>A completed transfer whose ingest is reported failed.\<close>

theorem pivot_C1_witness:
  "status (ark (example_world WAITING ''T1'')) = WAITING
   \<and> ark (snd (Archive_get example_config status_converter
       (answers [(''http://am/api/transfer/status/T1/'',
                  json_response [(''status'', ''COMPLETE''), (''sip_uuid'', ''P1'')]),
                 (''http://am/api/ingest/status/P1/'',
                  json_response [(''status'', ''FAILED'')])])
       True (example_world WAITING ''T1''))) = example_archive FAILED ''P1''
   \<and> dispatched (trace (snd (Archive_get example_config status_converter
       (answers [(''http://am/api/transfer/status/T1/'',
                  json_response [(''status'', ''COMPLETE''), (''sip_uuid'', ''P1'')]),
                 (''http://am/api/ingest/status/P1/'',
                  json_response [(''status'', ''FAILED'')])])
       True (example_world WAITING ''T1'')))) = [(PROCESSING_AIP, ''P1''), (FAILED, ''P1'')]"
  using pivot_C1 [where w = "example_world WAITING ''T1''"
      and requests_get = "answers [(''http://am/api/transfer/status/T1/'',
                  json_response [(''status'', ''COMPLETE''), (''sip_uuid'', ''P1'')]),
                 (''http://am/api/ingest/status/P1/'',
                  json_response [(''status'', ''FAILED'')])]"
      and cfg = example_config and conv = status_converter
      and r = "json_response [(''status'', ''COMPLETE''), (''sip_uuid'', ''P1'')]"
      and s = "''COMPLETE''" and P = "''P1''"
      and r' = "json_response [(''status'', ''FAILED'')]" and s' = "''FAILED''" and st = FAILED,
      OF _ _ _ _ _ _ _ _ _ _ _ surjective_pairing]
  by (simp add: helper_defs example_defs)

text \<open>
  The claim as stated fails. It asks for a record left with status \<open>PROCESSING_AIP\<close>
  and for two invocations of the dispatcher. When the ingest poll reports completion
  the dispatcher is invoked twice and the record is left \<open>REGISTERED\<close>; when it reports
  processing the record is left \<open>PROCESSING_AIP\<close> and the dispatcher was invoked once.
\<close>

theorem pivot_C1_counterexample:
  "\<not> (status (ark (snd (Archive_get example_config status_converter
          (answers [(''http://am/api/transfer/status/T1/'',
                     json_response [(''status'', ''COMPLETE''), (''sip_uuid'', ''P1'')]),
                    (''http://am/api/ingest/status/P1/'',
                     json_response [(''status'', ''COMPLETE'')])])
          True (example_world WAITING ''T1'')))) = PROCESSING_AIP
      \<and> length (dispatched (trace (snd (Archive_get example_config status_converter
          (answers [(''http://am/api/transfer/status/T1/'',
                     json_response [(''status'', ''COMPLETE''), (''sip_uuid'', ''P1'')]),
                    (''http://am/api/ingest/status/P1/'',
                     json_response [(''status'', ''COMPLETE'')])])
          True (example_world WAITING ''T1''))))) = 2)
   \<and> \<not> (status (ark (snd (Archive_get example_config status_converter
          (answers [(''http://am/api/transfer/status/T1/'',
                     json_response [(''status'', ''COMPLETE''), (''sip_uuid'', ''P1'')]),
                    (''http://am/api/ingest/status/P1/'',
                     json_response [(''status'', ''PROCESSING'')])])
          True (example_world WAITING ''T1'')))) = PROCESSING_AIP
      \<and> length (dispatched (trace (snd (Archive_get example_config status_converter
          (answers [(''http://am/api/transfer/status/T1/'',
                     json_response [(''status'', ''COMPLETE''), (''sip_uuid'', ''P1'')]),
                    (''http://am/api/ingest/status/P1/'',
                     json_response [(''status'', ''PROCESSING'')])])
          True (example_world WAITING ''T1''))))) = 2)"
  by (simp add: Archive_get_def poll_aip_def Let_def helper_defs example_defs)

text \<open>
  C3 as amended. When a poll of the Archival Service comes back with a response that is
  not a success, the call answers with that response's status code and an empty JSON
  object. If the failing poll is the transfer poll, the world gains the request and
  nothing else: the record is not mutated and the dispatcher is not invoked. If it is
  the poll of the ingest status that follows the pivot in the same call, what the pivot
  did stays: the record holds the package identifier and \<open>PROCESSING_AIP\<close>, and the
  dispatcher has been invoked once, for \<open>PROCESSING_AIP\<close>.
\<close>

theorem failed_poll_C3:
  assumes "status (ark w) = WAITING \<or> status (ark w) = PROCESSING_TRANSFER"
    and "archivematica_id (ark w) \<noteq> []"
    and "requests_get (transfer_url cfg (archivematica_id (ark w))) (dashboard_params cfg) = Inr r"
  shows "(\<not> ok r \<longrightarrow>
            Archive_get cfg conv requests_get True w
              = (Inr (empty_json (status_code r)),
                 sent (transfer_url cfg (archivematica_id (ark w))) (dashboard_params cfg) w))
     \<and> (ok r \<and> json_member r ''status'' = Inr s \<and> conv s False = Some REGISTERED \<and>
         json_member r ''sip_uuid'' = Inr P \<and>
         requests_get (ingest_url cfg P) (dashboard_params cfg) = Inr r' \<and> \<not> ok r' \<longrightarrow>
            Archive_get cfg conv requests_get True w
              = (Inr (empty_json (status_code r')),
                 w\<lparr>ark := (ark w)\<lparr>archivematica_id := P, status := PROCESSING_AIP\<rparr>,
                   trace := trace w @
                     [HttpGet (transfer_url cfg (archivematica_id (ark w))) (dashboard_params cfg),
                      Dispatch PROCESSING_AIP (sip_id (ark w)) (accession_id (ark w)) P,
                      HttpGet (ingest_url cfg P) (dashboard_params cfg)]\<rparr>))"
proof (intro conjI impI)
  assume "\<not> ok r"
  with assms show "Archive_get cfg conv requests_get True w
              = (Inr (empty_json (status_code r)),
                 sent (transfer_url cfg (archivematica_id (ark w))) (dashboard_params cfg) w)"
    by (auto simp add: Archive_get_def Let_def)
next
  let ?w3 = "w\<lparr>ark := (ark w)\<lparr>archivematica_id := P, status := PROCESSING_AIP\<rparr>,
        trace := trace w @
          [HttpGet (transfer_url cfg (archivematica_id (ark w))) (dashboard_params cfg),
           Dispatch PROCESSING_AIP (sip_id (ark w)) (accession_id (ark w)) P]\<rparr>"
  assume h: "ok r \<and> json_member r ''status'' = Inr s \<and> conv s False = Some REGISTERED \<and>
         json_member r ''sip_uuid'' = Inr P \<and>
         requests_get (ingest_url cfg P) (dashboard_params cfg) = Inr r' \<and> \<not> ok r'"
  with assms have "Archive_get cfg conv requests_get True w
          = poll_aip cfg conv requests_get (Some (dashboard_params cfg)) ?w3"
    by (simp add: get_pivot)
  moreover have "poll_aip cfg conv requests_get (Some (dashboard_params cfg)) ?w3
          = (Inr (empty_json (status_code r')), sent (ingest_url cfg P) (dashboard_params cfg) ?w3)"
    using h poll_aip_failed [of requests_get cfg ?w3 "dashboard_params cfg" r' conv] by simp
  ultimately show "Archive_get cfg conv requests_get True w
              = (Inr (empty_json (status_code r')),
                 w\<lparr>ark := (ark w)\<lparr>archivematica_id := P, status := PROCESSING_AIP\<rparr>,
                   trace := trace w @
                     [HttpGet (transfer_url cfg (archivematica_id (ark w))) (dashboard_params cfg),
                      Dispatch PROCESSING_AIP (sip_id (ark w)) (accession_id (ark w)) P,
                      HttpGet (ingest_url cfg P) (dashboard_params cfg)]\<rparr>)"
    by (simp add: sent_def)
qed

text \<open>
  A transfer poll answered with 500, and a completed transfer whose ingest poll is
  answered with 503.
\<close>

theorem failed_poll_C3_witness:
  "Archive_get example_config status_converter
       (answers [(''http://am/api/transfer/status/T1/'', error_response 500)])
       True (example_world WAITING ''T1'')
     = (Inr (empty_json 500),
        \<lparr>ark = example_archive WAITING ''T1'',
         trace = [HttpGet ''http://am/api/transfer/status/T1/''
                    \<lparr>username = ''invenio'', api_key = ''k1''\<rparr>]\<rparr>)
   \<and> Archive_get example_config status_converter
       (answers [(''http://am/api/transfer/status/T1/'',
                  json_response [(''status'', ''COMPLETE''), (''sip_uuid'', ''P1'')]),
                 (''http://am/api/ingest/status/P1/'', error_response 503)])
       True (example_world PROCESSING_TRANSFER ''T1'')
     = (Inr (empty_json 503),
        \<lparr>ark = example_archive PROCESSING_AIP ''P1'',
         trace = [HttpGet ''http://am/api/transfer/status/T1/''
                    \<lparr>username = ''invenio'', api_key = ''k1''\<rparr>,
                  Dispatch PROCESSING_AIP ''sip1'' ''acc1'' ''P1'',
                  HttpGet ''http://am/api/ingest/status/P1/''
                    \<lparr>username = ''invenio'', api_key = ''k1''\<rparr>]\<rparr>)"
  using
    failed_poll_C3 [where w = "example_world WAITING ''T1''"
      and requests_get = "answers [(''http://am/api/transfer/status/T1/'', error_response 500)]"
      and cfg = example_config and conv = status_converter and r = "error_response 500"]
    failed_poll_C3 [where w = "example_world PROCESSING_TRANSFER ''T1''"
      and requests_get = "answers [(''http://am/api/transfer/status/T1/'',
                  json_response [(''status'', ''COMPLETE''), (''sip_uuid'', ''P1'')]),
                 (''http://am/api/ingest/status/P1/'', error_response 503)]"
      and cfg = example_config and conv = status_converter
      and r = "json_response [(''status'', ''COMPLETE''), (''sip_uuid'', ''P1'')]"
      and s = "''COMPLETE''" and P = "''P1''" and r' = "error_response 503"]
  by (simp add: helper_defs example_defs)

text \<open>
  The claim as stated fails: a \<open>WAITING\<close> archive, a transfer reported complete with
  package \<open>P1\<close>, and an ingest poll answered with 500. The answer is the relayed 500
  with an empty body, and the record has been changed by the call.
\<close>

theorem failed_poll_C3_counterexample:
  "fst (Archive_get example_config status_converter
          (answers [(''http://am/api/transfer/status/T1/'',
                     json_response [(''status'', ''COMPLETE''), (''sip_uuid'', ''P1'')]),
                    (''http://am/api/ingest/status/P1/'', error_response 500)])
          True (example_world WAITING ''T1''))
     = Inr (empty_json 500)
   \<and> ark (snd (Archive_get example_config status_converter
          (answers [(''http://am/api/transfer/status/T1/'',
                     json_response [(''status'', ''COMPLETE''), (''sip_uuid'', ''P1'')]),
                    (''http://am/api/ingest/status/P1/'', error_response 500)])
          True (example_world WAITING ''T1'')))
     \<noteq> ark (example_world WAITING ''T1'')
   \<and> dispatched (trace (snd (Archive_get example_config status_converter
          (answers [(''http://am/api/transfer/status/T1/'',
                     json_response [(''status'', ''COMPLETE''), (''sip_uuid'', ''P1'')]),
                    (''http://am/api/ingest/status/P1/'', error_response 500)])
          True (example_world WAITING ''T1''))))
     = [(PROCESSING_AIP, ''P1'')]"
  by (simp add: Archive_get_def poll_aip_def Let_def helper_defs example_defs)

subsection \<open>The write path\<close>

text \<open>
  C6. A PATCH of an existing archive, by a caller holding the write permission, whose
  status string the converter does not recognise is rejected with the validation error
  of the argument parser, before the handler runs: the store and the trace are as
  they were.
\<close>

theorem invalid_status_rejected_C6:
  assumes "records s accession = Some a"
    and "allowed ''archive-write'' (accession_id a)"
    and "conv st False = None"
  shows "patch_route allowed conv accession
           \<lparr>status_member = Some st, archivematica_id_member = aid\<rparr> s
         = (Inl ValidationError, s)"
  using assms
  by (simp add: patch_route_def pass_accession_id_def check_permission_def use_kwargs_patch_def
      validate_status_def map_upd_triv)

theorem invalid_status_rejected_C6_witness:
  "records (example_state WAITING ''T1'') ''acc1'' = Some (example_archive WAITING ''T1'')
   \<and> grant_all ''archive-write'' (accession_id (example_archive WAITING ''T1''))
   \<and> status_converter ''DONE'' False = None
   \<and> patch_route grant_all status_converter ''acc1''
         \<lparr>status_member = Some ''DONE'', archivematica_id_member = Some ''T2''\<rparr>
         (example_state WAITING ''T1'')
       = (Inl ValidationError, example_state WAITING ''T1'')"
  using invalid_status_rejected_C6 [of "example_state WAITING ''T1''" "''acc1''"
      "example_archive WAITING ''T1''" grant_all status_converter "''DONE''" "Some ''T2''"]
  by (simp add: example_state_def status_converter_def grant_all_def)

text \<open>
  C7. The PATCH is idempotent. Whatever a first PATCH did, a second one with the same
  status string and identifier gives the same answer, leaves the record as the first
  left it, and adds a commit of that record to the trace and nothing else: the
  dispatcher is not invoked again. In particular a PATCH whose status converts to the
  status the record holds, with the identifier the record holds (or none), answers
  with the record's snapshot, leaves the record unchanged and only commits.
\<close>

theorem patch_idempotent_C7:
  assumes "Archive_patch conv st aid w = (res, w')"
    and "Archive_patch conv st aid w' = (res', w'')"
  shows "res' = res \<and> ark w'' = ark w'
     \<and> trace w'' = trace w' @ [Commit (ark w')]
     \<and> dispatched (trace w'') = dispatched (trace w')
     \<and> (conv st False = Some (status (ark w)) \<and>
          (aid = [] \<or> aid = archivematica_id (ark w)) \<longrightarrow>
          res = Inr (to_json (ark w)) \<and> ark w' = ark w \<and> trace w' = trace w @ [Commit (ark w)])"
proof -
  have id: "aid = [] \<or> aid = archivematica_id (ark w')"
    using assms(1) by (rule patch_id_after)
  have second: "res' = res \<and> w'' = w'\<lparr>trace := trace w' @ [Commit (ark w')]\<rparr>"
  proof (cases "conv st False")
    case None
    then have "res = Inl InvalidStatus"
      using assms(1) by (simp add: patch_rejected_after)
    moreover have "(res', w'') = (Inl InvalidStatus, w'\<lparr>trace := trace w' @ [Commit (ark w')]\<rparr>)"
      using assms(2) None patch_keeps_id [OF id, of conv st] by simp
    ultimately show ?thesis by simp
  next
    case (Some s)
    then have after: "status (ark w') = s \<and> res = Inr (to_json (ark w'))"
      using assms(1) by (simp add: patch_status_after)
    then have "(res', w'') = (Inr (to_json (ark w')), w'\<lparr>trace := trace w' @ [Commit (ark w')]\<rparr>)"
      using assms(2) Some patch_keeps_id [OF id, of conv st] by simp
    with after show ?thesis by simp
  qed
  have first: "conv st False = Some (status (ark w)) \<and>
          (aid = [] \<or> aid = archivematica_id (ark w)) \<longrightarrow>
          res = Inr (to_json (ark w)) \<and> ark w' = ark w \<and> trace w' = trace w @ [Commit (ark w)]"
  proof
    assume h: "conv st False = Some (status (ark w)) \<and>
          (aid = [] \<or> aid = archivematica_id (ark w))"
    then have "(res, w') = (Inr (to_json (ark w)), w\<lparr>trace := trace w @ [Commit (ark w)]\<rparr>)"
      using assms(1) patch_keeps_id [of aid w conv st] by simp
    then show "res = Inr (to_json (ark w)) \<and> ark w' = ark w \<and> trace w' = trace w @ [Commit (ark w)]"
      by simp
  qed
  from second first show ?thesis
    by (simp add: dispatched_append)
qed

text \<open>A \<open>WAITING\<close> archive patched twice to \<open>FAILED\<close> with identifier \<open>T2\<close>.\<close>

theorem patch_idempotent_C7_witness:
  "Archive_patch status_converter ''FAILED'' ''T2'' (example_world WAITING ''T1'')
     = (Inr (to_json (example_archive FAILED ''T2'')),
        \<lparr>ark = example_archive FAILED ''T2'',
         trace = [Commit (example_archive WAITING ''T2''), Dispatch FAILED ''sip1'' ''acc1'' ''T2'']\<rparr>)
   \<and> Archive_patch status_converter ''FAILED'' ''T2''
        \<lparr>ark = example_archive FAILED ''T2'',
         trace = [Commit (example_archive WAITING ''T2''), Dispatch FAILED ''sip1'' ''acc1'' ''T2'']\<rparr>
     = (Inr (to_json (example_archive FAILED ''T2'')),
        \<lparr>ark = example_archive FAILED ''T2'',
         trace = [Commit (example_archive WAITING ''T2''), Dispatch FAILED ''sip1'' ''acc1'' ''T2'',
                  Commit (example_archive FAILED ''T2'')]\<rparr>)"
proof -
  let ?w' = "\<lparr>ark = example_archive FAILED ''T2'',
         trace = [Commit (example_archive WAITING ''T2''), Dispatch FAILED ''sip1'' ''acc1'' ''T2'']\<rparr>"
  have first: "Archive_patch status_converter ''FAILED'' ''T2'' (example_world WAITING ''T1'')
     = (Inr (to_json (example_archive FAILED ''T2'')), ?w')"
    by (simp add: Archive_patch_def Let_def helper_defs example_defs)
  obtain res' w'' where second: "Archive_patch status_converter ''FAILED'' ''T2'' ?w' = (res', w'')"
    by (cases "Archive_patch status_converter ''FAILED'' ''T2'' ?w'") simp
  have "res' = Inr (to_json (example_archive FAILED ''T2'')) \<and> ark w'' = ark ?w'
      \<and> trace w'' = trace ?w' @ [Commit (ark ?w')]"
    using patch_idempotent_C7 [OF first second] by simp
  then have "(res', w'') = (Inr (to_json (example_archive FAILED ''T2'')),
        \<lparr>ark = example_archive FAILED ''T2'',
         trace = [Commit (example_archive WAITING ''T2''), Dispatch FAILED ''sip1'' ''acc1'' ''T2'',
                  Commit (example_archive FAILED ''T2'')]\<rparr>)"
    by (cases w'') simp
  with first second show ?thesis by simp
qed




subsection \<open>The download\<close>

text \<open>
  C9. A download of an archive that is not \<open>REGISTERED\<close>, or has no external
  identifier, is answered with 412 and the world is left as it was: no request went to
  the Archival Service.
\<close>

theorem download_precondition_C9:
  assumes "status (ark w) \<noteq> REGISTERED \<or> archivematica_id (ark w) = []"
  shows "ArchiveDownload_get cfg requests_get w
           = (Inr (make_response ''Archive has not been registered yet.'' 412), w)
         \<and> code (make_response ''Archive has not been registered yet.'' 412) = 412"
  using assms by (auto simp add: ArchiveDownload_get_def make_response_def)

text \<open>The spec's scenario: a \<open>WAITING\<close> archive with identifier \<open>T1\<close>.\<close>

theorem download_precondition_C9_witness:
  "status (ark (example_world WAITING ''T1'')) \<noteq> REGISTERED
   \<and> ArchiveDownload_get example_config (answers []) (example_world WAITING ''T1'')
       = (Inr (make_response ''Archive has not been registered yet.'' 412),
          example_world WAITING ''T1'')"
  using download_precondition_C9 [of "example_world WAITING ''T1''" example_config "answers []"]
  by (simp add: example_world_def example_archive_def)

text \<open>
  C10. The download route checks no permission on the accession. For a caller that
  holds neither the read nor the write permission on an existing accession, the
  download runs its handler on the archive found and never answers 403, while the
  status query and the PATCH of the same accession are both refused with 403.
\<close>

theorem download_unguarded_C10:
  assumes "records s accession = Some a"
    and "\<not> allowed ''archive-read'' (accession_id a)"
    and "\<not> allowed ''archive-write'' (accession_id a)"
  shows "fst (download_route cfg requests_get accession s)
           = fst (ArchiveDownload_get cfg requests_get \<lparr>ark = a, trace = events s\<rparr>)
     \<and> fst (download_route cfg requests_get accession s) \<noteq> Inl (Abort 403)
     \<and> get_route allowed cfg conv requests_get accession realStatus s = (Inl (Abort 403), s)
     \<and> patch_route allowed conv accession b s = (Inl (Abort 403), s)"
proof -
  have run: "fst (download_route cfg requests_get accession s)
           = fst (ArchiveDownload_get cfg requests_get \<lparr>ark = a, trace = events s\<rparr>)"
    using assms(1)
    by (simp add: download_route_def pass_accession_id_def split: prod.splits)
  then have "fst (download_route cfg requests_get accession s) \<noteq> Inl (Abort 403)"
    by (simp add: download_never_aborts)
  moreover have "get_route allowed cfg conv requests_get accession realStatus s = (Inl (Abort 403), s)"
    using assms(1,2)
    by (simp add: get_route_def pass_accession_id_def check_permission_def map_upd_triv)
  moreover have "patch_route allowed conv accession b s = (Inl (Abort 403), s)"
    using assms(1,3)
    by (simp add: patch_route_def pass_accession_id_def check_permission_def map_upd_triv)
  ultimately show ?thesis using run by simp
qed

text \<open>
  A registered archive, a storage service that serves the file, and a caller without
  any permission.
\<close>

theorem download_unguarded_C10_witness:
  "records (example_state REGISTERED ''A1'') ''acc1'' = Some (example_archive REGISTERED ''A1'')
   \<and> fst (download_route example_config
         (answers [(''http://ss/api/v2/file/A1/download/'',
                    \<lparr>ok = True, status_code = 200, json = None,
                     headers = [(''content-type'', ''application/zip''),
                                (''Content-Length'', ''3'')],
                     content = ''zip''\<rparr>)])
         ''acc1'' (example_state REGISTERED ''A1''))
       = Inr \<lparr>code = 200, payload = Stream ''zip'',
              reply_headers = [(''Content-Type'', ''application/octet-stream''),
                               (''Content-Length'', ''3'')]\<rparr>
   \<and> get_route deny_all example_config status_converter
         (answers [(''http://ss/api/v2/file/A1/download/'',
                    \<lparr>ok = True, status_code = 200, json = None,
                     headers = [(''content-type'', ''application/zip''),
                                (''Content-Length'', ''3'')],
                     content = ''zip''\<rparr>)])
         ''acc1'' (Some True) (example_state REGISTERED ''A1'')
       = (Inl (Abort 403), example_state REGISTERED ''A1'')
   \<and> patch_route deny_all status_converter ''acc1''
         \<lparr>status_member = Some ''FAILED'', archivematica_id_member = None\<rparr>
         (example_state REGISTERED ''A1'')
       = (Inl (Abort 403), example_state REGISTERED ''A1'')"
  using download_unguarded_C10 [where s = "example_state REGISTERED ''A1''" and accession = "''acc1''"
      and a = "example_archive REGISTERED ''A1''" and allowed = deny_all and cfg = example_config
      and requests_get = "answers [(''http://ss/api/v2/file/A1/download/'',
                    \<lparr>ok = True, status_code = 200, json = None,
                     headers = [(''content-type'', ''application/zip''),
                                (''Content-Length'', ''3'')],
                     content = ''zip''\<rparr>)]"
      and conv = status_converter and realStatus = "Some True"
      and b = "\<lparr>status_member = Some ''FAILED'', archivematica_id_member = None\<rparr>"]
  by (simp add: ArchiveDownload_get_def Let_def helper_defs example_defs deny_all_def
      headers_set_def lower_def lower_char_def)

end
